theory Spec2Isabelle
  imports Complex_Main
begin

section \<open>Python strings\<close>

text \<open>
  A Python \<^verbatim>\<open>str\<close> is a sequence of code points. The texts are modelled as
  \<^typ>\<open>string\<close>, one \<^typ>\<open>char\<close> per code point, which covers the code points
  0 to 255 (Latin-1). The whitespace of \<^verbatim>\<open>str.split()\<close>, \<^verbatim>\<open>str.strip()\<close> and
  \<^verbatim>\<open>str.isspace()\<close> in that range is 9 to 13, 28 to 32, 133 and 160.
\<close>

definition is_space :: "char \<Rightarrow> bool" where
  "is_space c =
     (let n = (of_char c :: nat)
      in (9 \<le> n \<and> n \<le> 13) \<or> (28 \<le> n \<and> n \<le> 32) \<or> n = 133 \<or> n = 160)"

text \<open>\<^verbatim>\<open>s.strip()\<close>: leading and trailing whitespace removed.\<close>

definition py_strip :: "string \<Rightarrow> string" where
  "py_strip s = rev (dropWhile is_space (rev (dropWhile is_space s)))"

text \<open>
  \<^verbatim>\<open>s.split()\<close>: the maximal runs of non-whitespace characters, in order.
  \<open>split_from cur s\<close> scans \<open>s\<close> with the word read so far in \<open>cur\<close>.
\<close>

fun split_from :: "string \<Rightarrow> string \<Rightarrow> string list" where
  "split_from cur [] = (if cur = [] then [] else [cur])"
| "split_from cur (c # cs) =
     (if is_space c
      then (if cur = [] then [] else [cur]) @ split_from [] cs
      else split_from (cur @ [c]) cs)"

definition py_split :: "string \<Rightarrow> string list" where
  "py_split s = split_from [] s"

text \<open>\<^verbatim>\<open>sep.join(ws)\<close>.\<close>

fun py_join :: "string \<Rightarrow> string list \<Rightarrow> string" where
  "py_join sep [] = []"
| "py_join sep [w] = w"
| "py_join sep (w # v # ws) = w @ sep @ py_join sep (v # ws)"

text \<open>
  \<^verbatim>\<open>s.lower()\<close> on the code points 0 to 255: A to Z and the accented capitals
  192 to 222 (without the multiplication sign 215) move up by 32.
\<close>

definition lower_char :: "char \<Rightarrow> char" where
  "lower_char c =
     (let n = (of_char c :: nat)
      in if (65 \<le> n \<and> n \<le> 90) \<or> (192 \<le> n \<and> n \<le> 222 \<and> n \<noteq> 215)
         then char_of (n + 32) else c)"

definition py_lower :: "string \<Rightarrow> string" where
  "py_lower s = map lower_char s"

text \<open>\<^verbatim>\<open>w in s\<close> for strings: \<open>w\<close> occurs in \<open>s\<close> as a contiguous substring.\<close>

fun startswith :: "string \<Rightarrow> string \<Rightarrow> bool" where
  "startswith s [] = True"
| "startswith [] (c # w) = False"
| "startswith (d # s) (c # w) = (d = c \<and> startswith s w)"

fun py_in :: "string \<Rightarrow> string \<Rightarrow> bool" where
  "py_in w [] = (w = [])"
| "py_in w (c # cs) = (startswith (c # cs) w \<or> py_in w cs)"


section \<open>Toxicity gate\<close>

text \<open>
  The Detoxify model is an external collaborator. A call \<^verbatim>\<open>predict(text)\<close> either
  raises (\<open>None\<close>) or returns a dictionary from category names to scores, kept as an
  association list in the dictionary's order. Scores are Python floats, modelled as
  \<^typ>\<open>real\<close>.
\<close>

type_synonym detoxify = "string \<Rightarrow> (string \<times> real) list option"

text \<open>
  \<^verbatim>\<open>max(d.values())\<close> raises \<^verbatim>\<open>ValueError\<close> on an empty dictionary (\<open>None\<close>).
\<close>

definition max_values :: "(string \<times> real) list \<Rightarrow> real option" where
  "max_values d = (case map snd d of [] \<Rightarrow> None | v # vs \<Rightarrow> Some (fold max vs v))"

text \<open>
  \<^verbatim>\<open>detect_toxicity\<close> of \<^verbatim>\<open>app_lite_toxicity.py\<close>. The flag is the module's
  \<^verbatim>\<open>DETOXIFY_AVAILABLE\<close>; \<open>predict\<close> stands for constructing \<^verbatim>\<open>Detoxify('original')\<close>
  and calling \<^verbatim>\<open>predict\<close>, both inside the \<^verbatim>\<open>try\<close>.
\<close>

definition detect_toxicity :: "bool \<Rightarrow> detoxify \<Rightarrow> string \<Rightarrow> bool \<times> real" where
  "detect_toxicity DETOXIFY_AVAILABLE predict text =
     (if \<not> DETOXIFY_AVAILABLE then (False, 0.0)
      else case predict text of
             None \<Rightarrow> (False, 0.0)
           | Some toxicity_scores \<Rightarrow>
               (case max_values toxicity_scores of
                  None \<Rightarrow> (False, 0.0)
                | Some max_score \<Rightarrow> (max_score > 0.6, max_score)))"

text \<open>
  \<^verbatim>\<open>detect_toxicity_cuda\<close> of \<^verbatim>\<open>app_cuda.py\<close>. The global \<^verbatim>\<open>detoxify_model\<close> is
  \<open>None\<close> until the startup hook loads it; \<^verbatim>\<open>toxicity_scores['toxicity']\<close> raises
  \<^verbatim>\<open>KeyError\<close> when the key is missing, which the \<^verbatim>\<open>except\<close> catches.
\<close>

definition detect_toxicity_cuda :: "bool \<Rightarrow> detoxify option \<Rightarrow> string \<Rightarrow> bool \<times> real" where
  "detect_toxicity_cuda DETOXIFY_AVAILABLE detoxify_model text =
     (case (DETOXIFY_AVAILABLE, detoxify_model) of
        (True, Some predict) \<Rightarrow>
          (case predict text of
             None \<Rightarrow> (False, 0.0)
           | Some toxicity_scores \<Rightarrow>
               (case map_of toxicity_scores ''toxicity'' of
                  None \<Rightarrow> (False, 0.0)
                | Some toxic_score \<Rightarrow> (toxic_score > 0.6, toxic_score)))
      | _ \<Rightarrow> (False, 0.0))"


section \<open>Summarizers\<close>

text \<open>
  The summarization pipeline is an external collaborator. \<open>summarizer input\<close> stands
  for the expression \<^verbatim>\<open>summarizer(input, ...)[0]['summary_text']\<close>: \<open>None\<close> when
  evaluating it raises, otherwise the summary text.
\<close>

type_synonym summarizer = "string \<Rightarrow> string option"

text \<open>
  \<^verbatim>\<open>summarize_text_real\<close> of \<^verbatim>\<open>app_production.py\<close>. \<^verbatim>\<open>pd.isna(text)\<close> is false
  for every string.
\<close>

definition summarize_text_real :: "bool \<Rightarrow> summarizer \<Rightarrow> string \<Rightarrow> string" where
  "summarize_text_real models_loaded summarizer text =
     (if py_strip text = [] then ''No content to summarize''
      else
        let text_str = py_strip text;
            words = py_split text_str;
            word_count = length words
        in if word_count \<le> 15 then text_str
           else if \<not> models_loaded then py_join '' '' (take 50 words) @ ''...''
           else
             (case summarizer (if length text_str > 1000 then take 1000 text_str else text_str) of
                Some summary_text \<Rightarrow> summary_text
              | None \<Rightarrow> py_join '' '' (take 50 words) @ ''...''))"

text \<open>
  \<^verbatim>\<open>summarize_text\<close> of \<^verbatim>\<open>app.py\<close>. Here the handler puts the exception's
  message into the result, so a raising call is \<open>Inl\<close> of \<^verbatim>\<open>str(e)\<close>.
\<close>

definition summarize_text_app :: "(string \<Rightarrow> string + string) \<Rightarrow> string \<Rightarrow> string" where
  "summarize_text_app summarizer text =
     (if py_strip text = [] then ''No content to summarize''
      else
        let text_str = py_strip text
        in if length text_str < 20 then text_str
           else
             (case summarizer (if length text_str > 1000 then take 1000 text_str else text_str) of
                Inr summary_text \<Rightarrow> summary_text
              | Inl e \<Rightarrow> ''Summarization failed: '' @ e))"

text \<open>
  \<^verbatim>\<open>summarize_text\<close> of \<^verbatim>\<open>app_full_system.py\<close>. The global \<^verbatim>\<open>summarizer\<close> is
  \<open>None\<close> unless \<^verbatim>\<open>load_models\<close> succeeded. Every caller leaves \<^verbatim>\<open>max_words\<close> at
  its default 15; it is a natural number here.
\<close>

definition summarize_text_full_system :: "summarizer option \<Rightarrow> string \<Rightarrow> nat \<Rightarrow> string" where
  "summarize_text_full_system summarizer text max_words =
     (let words = py_split text
      in if length words \<le> max_words then text
         else
           (case summarizer of
              None \<Rightarrow> py_join '' '' (take max_words words)
            | Some run \<Rightarrow>
                (case run text of
                   Some summary_text \<Rightarrow> py_join '' '' (take max_words (py_split summary_text))
                 | None \<Rightarrow> py_join '' '' (take max_words words))))"

text \<open>
  \<^verbatim>\<open>summarize_text_cuda\<close> of \<^verbatim>\<open>app_cuda.py\<close>; \<open>truncate_cuda\<close> is the fallback
  expression that the function has twice.
\<close>

definition truncate_cuda :: "string \<Rightarrow> string" where
  "truncate_cuda text =
     (let words = py_split text
      in py_join '' '' (take 50 words) @ (if length words > 50 then ''...'' else []))"

definition summarize_text_cuda :: "bool \<Rightarrow> summarizer option \<Rightarrow> string \<Rightarrow> string" where
  "summarize_text_cuda TRANSFORMERS_AVAILABLE summarizer text =
     (case (TRANSFORMERS_AVAILABLE, summarizer) of
        (True, Some run) \<Rightarrow>
          (if length (py_split text) < 10 then text
           else (case run text of
                   Some summary_text \<Rightarrow> summary_text
                 | None \<Rightarrow> truncate_cuda text))
      | _ \<Rightarrow> truncate_cuda text)"

text \<open>\<^verbatim>\<open>simple_summary\<close> of \<^verbatim>\<open>app_lite_toxicity.py\<close>.\<close>

definition simple_summary :: "string \<Rightarrow> nat \<Rightarrow> string" where
  "simple_summary text max_words =
     (let words = py_split text
      in if length words \<le> max_words then text
         else py_join '' '' (take max_words words) @ ''...'')"


section \<open>Sentiment classifiers\<close>

text \<open>
  \<^verbatim>\<open>sum(1 for word in words if word in text_lower)\<close>, as the keyword strategies of
  \<^verbatim>\<open>app_lite_toxicity.py\<close> and \<^verbatim>\<open>app_full_system.py\<close> count.
\<close>

definition count_matching :: "string list \<Rightarrow> string \<Rightarrow> int" where
  "count_matching words text_lower =
     sum_list (map (\<lambda>word. 1) (filter (\<lambda>word. py_in word text_lower) words))"

text \<open>\<^verbatim>\<open>simple_sentiment\<close> of \<^verbatim>\<open>app_lite_toxicity.py\<close>.\<close>

definition simple_sentiment :: "string \<Rightarrow> string \<times> real" where
  "simple_sentiment text =
     (let positive_words = [''good'', ''great'', ''excellent'', ''positive'', ''support'',
            ''agree'', ''beneficial''];
          negative_words = [''bad'', ''terrible'', ''awful'', ''negative'', ''oppose'',
            ''disagree'', ''harmful''];
          text_lower = py_lower text;
          pos_count = count_matching positive_words text_lower;
          neg_count = count_matching negative_words text_lower
      in if pos_count > neg_count then (''positive'', 0.75)
         else if neg_count > pos_count then (''negative'', 0.75)
         else (''neutral'', 0.60))"

text \<open>
  \<^verbatim>\<open>analyze_sentiment\<close> of \<^verbatim>\<open>app_full_system.py\<close>. \<open>keyword_fallback\<close> is the
  part of the function below its comment \<^verbatim>\<open>Fallback to keyword-based analysis\<close>.
  The tokenizer and the DistilBERT model are loaded together;
  \<open>sentiment_model\<close> is \<open>None\<close> when they are not, and a call gives the predicted
  class with its softmax probability, or \<open>None\<close> when the \<^verbatim>\<open>try\<close> block raises.
\<close>

definition keyword_fallback :: "string \<Rightarrow> string \<times> real" where
  "keyword_fallback text =
     (let positive_keywords = [''good'', ''great'', ''excellent'', ''approve'', ''support'',
            ''beneficial'', ''helpful'', ''clear''];
          negative_keywords = [''bad'', ''poor'', ''confusing'', ''difficult'', ''burden'',
            ''impractical'', ''harmful''];
          text_lower = py_lower text;
          positive_count = count_matching positive_keywords text_lower;
          negative_count = count_matching negative_keywords text_lower
      in if positive_count > negative_count then (''positive'', 0.7)
         else if negative_count > positive_count then (''negative'', 0.7)
         else (''neutral'', 0.5))"

definition analyze_sentiment ::
    "(string \<Rightarrow> (nat \<times> real) option) option \<Rightarrow> string \<Rightarrow> string \<times> real" where
  "analyze_sentiment sentiment_model text =
     (case sentiment_model of
        None \<Rightarrow> keyword_fallback text
      | Some run \<Rightarrow>
          (case run text of
             Some (predicted_class, confidence) \<Rightarrow>
               (if predicted_class = 1 then ''positive'' else ''negative'', confidence)
           | None \<Rightarrow> keyword_fallback text))"

text \<open>
  \<^verbatim>\<open>analyze_sentiment_cuda\<close> of \<^verbatim>\<open>app_cuda.py\<close>. A call of the pipeline gives
  \<^verbatim>\<open>result[0]['label']\<close> and \<^verbatim>\<open>result[0]['score']\<close>, or \<open>None\<close> when the
  \<^verbatim>\<open>try\<close> block raises.
\<close>

definition analyze_sentiment_cuda ::
    "bool \<Rightarrow> (string \<Rightarrow> (string \<times> real) option) option \<Rightarrow> string \<Rightarrow> string \<times> real" where
  "analyze_sentiment_cuda TRANSFORMERS_AVAILABLE sentiment_analyzer text =
     (case (TRANSFORMERS_AVAILABLE, sentiment_analyzer) of
        (True, Some run) \<Rightarrow>
          (case run text of
             Some (label, score) \<Rightarrow> (py_lower label, score)
           | None \<Rightarrow> (''neutral'', 0.5))
      | _ \<Rightarrow> (''neutral'', 0.5))"

text \<open>
  \<^verbatim>\<open>predict_sentiment\<close> of \<^verbatim>\<open>app_enhanced.py\<close>, with its four lists and its four
  counting loops. \<open>count_loop entries text_lower weight count\<close> is one loop
  \<^verbatim>\<open>for entry in entries: if entry in text_lower: count += weight\<close>.
\<close>

definition positive_words :: "string list" where
  "positive_words =
     [''good'', ''great'', ''excellent'', ''amazing'', ''love'', ''fantastic'', ''wonderful'',
      ''awesome'', ''perfect'', ''best'', ''brilliant'', ''outstanding'', ''superb'',
      ''happy'', ''pleased'', ''satisfied'', ''impressed'', ''recommend'', ''quality'',
      ''fast'', ''quick'', ''efficient'', ''responsive'', ''helpful'', ''clear'', ''easy'',
      ''successful'', ''seamless'', ''professional'', ''dedication'', ''exceeded'', ''rare'',
      ''help'', ''helps'', ''grow'', ''encourage'', ''innovation'', ''improve'', ''improves'',
      ''benefits'', ''benefit'', ''progressive'', ''needed'', ''initiative'', ''simplify'',
      ''transparency'', ''appreciate'', ''effort'', ''important'', ''follow'']"

definition negative_words :: "string list" where
  "negative_words =
     [''bad'', ''terrible'', ''awful'', ''hate'', ''worst'', ''poor'', ''disappointing'',
      ''horrible'', ''useless'', ''waste'', ''broken'', ''defective'', ''cheap'',
      ''unhappy'', ''frustrated'', ''angry'', ''annoyed'', ''problem'', ''issue'',
      ''damaged'', ''disappointed'', ''extremely disappointed'', ''refused'', ''unhelpful'',
      ''complicated'', ''time-consuming'', ''not helpful'', ''low quality'', ''concerns'',
      ''broke'', ''failed'', ''difficult'', ''slow'', ''expensive'', ''overpriced'',
      ''confusing'', ''burden'', ''impractical'', ''corruption'', ''inaccessible'',
      ''delay'', ''increase'', ''paperwork'', ''drawbacks'', ''harmful'']"

definition negative_phrases :: "string list" where
  "negative_phrases =
     [''extremely disappointed'', ''not helpful'', ''low quality'', ''poor quality'',
      ''terrible experience'', ''bad quality'', ''refused to help'', ''broke within'']"

definition positive_phrases :: "string list" where
  "positive_phrases =
     [''excellent quality'', ''great product'', ''outstanding customer service'',
      ''highly recommend'', ''exceeded expectations'', ''fast delivery'',
      ''excellent work'', ''great initiative'', ''much needed'', ''easy to follow'',
      ''help startups'', ''encourage innovation'', ''benefits small businesses'',
      ''improves transparency'', ''good points'']"

definition count_loop :: "string list \<Rightarrow> string \<Rightarrow> int \<Rightarrow> int \<Rightarrow> int" where
  "count_loop entries text_lower weight count =
     fold (\<lambda>entry n. if py_in entry text_lower then n + weight else n) entries count"

definition predict_sentiment :: "string \<Rightarrow> string" where
  "predict_sentiment text =
     (if py_strip text = [] then ''NEUTRAL''
      else
        let text_lower = py_lower text;
            positive_count = count_loop positive_words text_lower 1 0;
            negative_count = count_loop negative_words text_lower 1 0;
            negative_count = count_loop negative_phrases text_lower 2 negative_count;
            positive_count = count_loop positive_phrases text_lower 2 positive_count
        in if positive_count > negative_count then ''POSITIVE''
           else if negative_count > positive_count then ''NEGATIVE''
           else if length (py_split text) \<le> 3 then ''NEUTRAL''
           else if negative_count > 0 then ''NEGATIVE''
           else if positive_count > 0 then ''POSITIVE''
           else ''NEUTRAL'')"

text \<open>The entries of the four lists begin with a character that is not whitespace.\<close>

definition starts_with_letter :: "string \<Rightarrow> bool" where
  "starts_with_letter w = (case w of [] \<Rightarrow> False | c # cs \<Rightarrow> \<not> is_space c)"

text \<open>
  The keyword strategy in the words of the specification, to compare
  \<open>predict_sentiment\<close> with. Each side has one set of words and phrases. Every entry
  of the set that occurs in the lowercased text is one hit for its side: of weight 2
  when the entry is a phrase (more than one word), of weight 1 when it is a single word.
  The label follows from the two weighted counts and the number of words of the text.
\<close>

datatype label = Positive | Negative | Neutral

definition is_phrase :: "string \<Rightarrow> bool" where
  "is_phrase entry = (length (py_split entry) > 1)"

definition claimed_count :: "string list \<Rightarrow> string list \<Rightarrow> string \<Rightarrow> nat" where
  "claimed_count words phrases text =
     sum_list (map (\<lambda>entry. if is_phrase entry then 2 else 1)
       (filter (\<lambda>entry. py_in entry (py_lower text)) (remdups (words @ phrases))))"

definition select_label :: "nat \<Rightarrow> nat \<Rightarrow> nat \<Rightarrow> label" where
  "select_label pos neg word_count =
     (if pos > neg then Positive
      else if neg > pos then Negative
      else if word_count \<le> 3 then Neutral
      else if neg > 0 then Negative
      else if pos > 0 then Positive
      else Neutral)"

definition claimed_label :: "string \<Rightarrow> label" where
  "claimed_label text =
     select_label (claimed_count positive_words positive_phrases text)
       (claimed_count negative_words negative_phrases text) (length (py_split text))"

fun label_name :: "label \<Rightarrow> string" where
  "label_name Positive = ''POSITIVE''"
| "label_name Negative = ''NEGATIVE''"
| "label_name Neutral = ''NEUTRAL''"

text \<open>
  The code keeps the words and the phrases of a side in two lists, and three negative
  phrases are entries of both: the loop over \<open>negative_words\<close> counts them once and the
  loop over \<open>negative_phrases\<close> twice more. \<open>hits\<close> is the number of entries of a list
  that occur in the lowercased text; \<open>counted_label\<close> is the rule with one more for each
  phrase listed twice.
\<close>

definition hits :: "string list \<Rightarrow> string \<Rightarrow> nat" where
  "hits entries text = length (filter (\<lambda>entry. py_in entry (py_lower text)) entries)"

definition listed_twice :: "string list" where
  "listed_twice = filter (\<lambda>entry. entry \<in> set negative_words) negative_phrases"

definition counted_label :: "string \<Rightarrow> label" where
  "counted_label text =
     select_label (claimed_count positive_words positive_phrases text)
       (claimed_count negative_words negative_phrases text + hits listed_twice text)
       (length (py_split text))"


section \<open>Persistence store\<close>

text \<open>
  The two tables of \<^verbatim>\<open>models.py\<close>. The primary keys are \<open>am_id\<close> and \<open>fb_id\<close>
  (both \<^verbatim>\<open>id\<close> in the source) and the timestamps \<open>am_created_at\<close> and
  \<open>fb_created_at\<close> (both \<^verbatim>\<open>created_at\<close>); the nullable columns of a feedback row
  are options. The table has no column that marks a row as toxic.
\<close>

record Amendment =
  am_id :: int
  title :: string
  description :: string
  am_created_at :: nat

record Feedback =
  fb_id :: int
  fb_amendment_id :: int
  fb_original_text :: string
  summary :: "string option"
  sentiment :: "string option"
  sentiment_confidence :: "real option"
  fb_created_at :: nat

text \<open>
  The database as a session sees it after a commit: the rows of both tables in insertion
  order and the next primary key of the feedback table.
\<close>

record db =
  amendments :: "Amendment list"
  feedback :: "Feedback list"
  next_feedback_id :: int

text \<open>
  \<^verbatim>\<open>db.query(AmendmentModel).filter(AmendmentModel.id == i).first()\<close>.
\<close>

definition first_amendment :: "db \<Rightarrow> int \<Rightarrow> Amendment option" where
  "first_amendment d i = find (\<lambda>a. am_id a = i) (amendments d)"

text \<open>
  \<^verbatim>\<open>db.add(row); db.commit(); db.refresh(row)\<close> for a feedback row built from the
  keyword arguments of \<^verbatim>\<open>FeedbackModel(...)\<close>: the database assigns the key, the
  column default assigns the timestamp \<open>now\<close>.
\<close>

definition add_feedback ::
    "db \<Rightarrow> nat \<Rightarrow> int \<Rightarrow> string \<Rightarrow> string option \<Rightarrow> string option \<Rightarrow> real option
      \<Rightarrow> Feedback \<times> db" where
  "add_feedback d now a_id text summ sent conf =
     (let row = \<lparr>fb_id = next_feedback_id d, fb_amendment_id = a_id, fb_original_text = text,
                 summary = summ, sentiment = sent, sentiment_confidence = conf,
                 fb_created_at = now\<rparr>
      in (row, d\<lparr>feedback := feedback d @ [row], next_feedback_id := next_feedback_id d + 1\<rparr>))"


section \<open>Feedback submission\<close>

text \<open>
  The request body \<^verbatim>\<open>FeedbackCreate\<close>, the response \<^verbatim>\<open>APIResponse\<close> with its
  \<^verbatim>\<open>data\<close> dictionary in the order the source writes it, and \<^verbatim>\<open>HTTPException\<close>.
\<close>

record FeedbackCreate =
  amendment_id :: int
  original_text :: string

datatype json = JBool bool | JInt int | JFloat real | JStr string

record APIResponse =
  success :: bool
  message :: string
  data :: "(string \<times> json) list"

datatype http_exception = HTTPException nat string

text \<open>
  An endpoint returns the raised exception or the response, and the database after it.
  A raised \<^verbatim>\<open>HTTPException\<close> leaves the session without a commit.
\<close>

type_synonym outcome = "(http_exception + APIResponse) \<times> db"

text \<open>The responses that the variants share.\<close>

definition toxic_response :: "real \<Rightarrow> APIResponse" where
  "toxic_response toxic_score =
     \<lparr>success = False, message = ''The comment contains toxicity'',
      data = [(''toxic'', JBool True), (''toxic_score'', JFloat toxic_score)]\<rparr>"

definition saved_response :: "Feedback \<Rightarrow> string \<Rightarrow> real \<Rightarrow> string \<Rightarrow> real \<Rightarrow> APIResponse" where
  "saved_response db_feedback sent conf summ toxic_score =
     \<lparr>success = True, message = ''Feedback submitted successfully'',
      data = [(''toxic'', JBool False), (''feedback_id'', JInt (fb_id db_feedback)),
              (''sentiment'', JStr sent), (''confidence'', JFloat conf),
              (''summary'', JStr summ), (''toxic_score'', JFloat toxic_score)]\<rparr>"

text \<open>\<^verbatim>\<open>submit_feedback\<close> of \<^verbatim>\<open>app_lite_toxicity.py\<close>.\<close>

definition submit_feedback_lite ::
    "bool \<Rightarrow> detoxify \<Rightarrow> FeedbackCreate \<Rightarrow> db \<Rightarrow> nat \<Rightarrow> outcome" where
  "submit_feedback_lite DETOXIFY_AVAILABLE predict fb d now =
     (case first_amendment d (amendment_id fb) of
        None \<Rightarrow> (Inl (HTTPException 404 ''Amendment not found''), d)
      | Some amendment \<Rightarrow>
          (let (is_toxic, toxic_score) =
                 detect_toxicity DETOXIFY_AVAILABLE predict (original_text fb)
           in if is_toxic then (Inr (toxic_response toxic_score), d)
              else
                let (sent, conf) = simple_sentiment (original_text fb);
                    summ = simple_summary (original_text fb) 15;
                    (db_feedback, d') =
                      add_feedback d now (amendment_id fb) (original_text fb)
                        (Some summ) (Some sent) (Some conf)
                in (Inr (saved_response db_feedback sent conf summ toxic_score), d')))"

text \<open>
  \<^verbatim>\<open>submit_feedback_cuda\<close> of \<^verbatim>\<open>app_cuda.py\<close>, with the module's flags and model
  globals in a record.
\<close>

record cuda_globals =
  TRANSFORMERS_AVAILABLE :: bool
  DETOXIFY_AVAILABLE :: bool
  detoxify_model :: "detoxify option"
  sentiment_analyzer :: "(string \<Rightarrow> (string \<times> real) option) option"
  summarizer_cuda :: "summarizer option"

definition submit_feedback_cuda :: "cuda_globals \<Rightarrow> FeedbackCreate \<Rightarrow> db \<Rightarrow> nat \<Rightarrow> outcome" where
  "submit_feedback_cuda g fb d now =
     (case first_amendment d (amendment_id fb) of
        None \<Rightarrow> (Inl (HTTPException 404 ''Amendment not found''), d)
      | Some amendment \<Rightarrow>
          (let (is_toxic, toxic_score) =
                 detect_toxicity_cuda (DETOXIFY_AVAILABLE g) (detoxify_model g) (original_text fb)
           in if is_toxic then (Inr (toxic_response toxic_score), d)
              else
                let (sent, conf) =
                      analyze_sentiment_cuda (TRANSFORMERS_AVAILABLE g) (sentiment_analyzer g)
                        (original_text fb);
                    summ = summarize_text_cuda (TRANSFORMERS_AVAILABLE g) (summarizer_cuda g)
                        (original_text fb);
                    (db_feedback, d') =
                      add_feedback d now (amendment_id fb) (original_text fb)
                        (Some summ) (Some sent) (Some conf)
                in (Inr (saved_response db_feedback sent conf summ toxic_score), d')))"

text \<open>
  \<^verbatim>\<open>submit_feedback\<close> of \<^verbatim>\<open>app_working.py\<close>, which has no toxicity gate and reports
  the fixed score 0.1.
\<close>

definition submit_feedback_working :: "FeedbackCreate \<Rightarrow> db \<Rightarrow> nat \<Rightarrow> outcome" where
  "submit_feedback_working fb d now =
     (case first_amendment d (amendment_id fb) of
        None \<Rightarrow> (Inl (HTTPException 404 ''Amendment not found''), d)
      | Some amendment \<Rightarrow>
          (let text = original_text fb;
               summ = (if length text > 100 then ''Summary: '' @ take 100 text @ ''...''
                       else text);
               sent = (if py_in ''good'' (py_lower text) \<or> py_in ''great'' (py_lower text)
                       then ''positive'' else ''neutral'');
               (db_feedback, d') =
                 add_feedback d now (amendment_id fb) text (Some summ) (Some sent) (Some 0.85)
           in (Inr (saved_response db_feedback sent 0.85 summ 0.1), d')))"

text \<open>
  The rows that a request added to the feedback table: those of the table after the
  request that lie beyond the table before it. A row is analysed when none of its three
  analysis columns is null.
\<close>

definition added_rows :: "db \<Rightarrow> db \<Rightarrow> Feedback list" where
  "added_rows d d' = drop (length (feedback d)) (feedback d')"

definition analysed :: "Feedback \<Rightarrow> bool" where
  "analysed row = (summary row \<noteq> None \<and> sentiment row \<noteq> None \<and> sentiment_confidence row \<noteq> None)"

text \<open>
  What a request did to the feedback table: it only appended rows, every appended row is
  analysed, and \<open>n\<close> rows were appended.
\<close>

definition persists_analysed :: "db \<Rightarrow> db \<Rightarrow> nat \<Rightarrow> bool" where
  "persists_analysed d d' n =
     (feedback d' = feedback d @ added_rows d d'
      \<and> list_all analysed (added_rows d d')
      \<and> length (added_rows d d') = n)"

text \<open>A database with one amendment and no feedback, and two requests, for the examples.\<close>

definition one_amendment_db :: db where
  "one_amendment_db =
     \<lparr>amendments = [\<lparr>am_id = 1, title = ''Amendment'', description = ''Text'',
                      am_created_at = 0\<rparr>],
      feedback = [], next_feedback_id = 1\<rparr>"

definition toxic_request :: FeedbackCreate where
  "toxic_request = \<lparr>amendment_id = 1, original_text = ''You fools''\<rparr>"

definition friendly_request :: FeedbackCreate where
  "friendly_request = \<lparr>amendment_id = 1, original_text = ''Great job on this amendment!''\<rparr>"

text \<open>A Detoxify model that scores every text at 0.75, and globals that hold it.\<close>

definition scores_075 :: detoxify where
  "scores_075 text = Some [(''toxicity'', 0.75), (''insult'', 0.5)]"

definition scores_010 :: detoxify where
  "scores_010 text = Some [(''toxicity'', 0.1), (''insult'', 0.05)]"

definition globals_with :: "detoxify \<Rightarrow> cuda_globals" where
  "globals_with model =
     \<lparr>TRANSFORMERS_AVAILABLE = True, DETOXIFY_AVAILABLE = True, detoxify_model = Some model,
      sentiment_analyzer = Some (\<lambda>text. Some (''POSITIVE'', 0.99)),
      summarizer_cuda = Some (\<lambda>text. Some ''A summary.'')\<rparr>"


section \<open>Properties of the toxicity gate\<close>


text \<open>
  Claim C4. For every input text, when the toxicity classifier is unavailable (the
  import failed or the model was never loaded) or raises, the gate returns
  \<open>(False, 0.0)\<close>: it fails open.
\<close>

theorem toxicity_fail_open:
  "(\<not> avail \<or> predict text = None \<longrightarrow> detect_toxicity avail predict text = (False, 0))
   \<and> (\<not> avail \<or> model = None \<or> (\<exists>p. model = Some p \<and> p text = None)
        \<longrightarrow> detect_toxicity_cuda avail model text = (False, 0))"
  by (auto simp add: detect_toxicity_def detect_toxicity_cuda_def split: option.split bool.split)

theorem toxicity_fail_open_witness:
  "detect_toxicity False (\<lambda>t. Some [(''toxicity'', 0.9)]) ''you fool'' = (False, 0)
   \<and> detect_toxicity True (\<lambda>t. None) ''you fool'' = (False, 0)
   \<and> detect_toxicity_cuda True None ''you fool'' = (False, 0)
   \<and> detect_toxicity_cuda True (Some (\<lambda>t. None)) ''you fool'' = (False, 0)"
  using toxicity_fail_open [of False "\<lambda>t. Some [(''toxicity'', 0.9)]" "''you fool''" None]
    toxicity_fail_open [of True "\<lambda>t. None" "''you fool''" None]
    toxicity_fail_open [of True "\<lambda>t. None" "''you fool''" "Some (\<lambda>t. None)"]
  by simp

section \<open>Properties of splitting and stripping\<close>

lemma dropWhile_all_Nil:
  assumes "\<forall>c\<in>set (dropWhile P xs). P c"
  shows "dropWhile P xs = []"
proof (rule ccontr)
  assume ne: "dropWhile P xs \<noteq> []"
  then have "\<not> P (hd (dropWhile P xs))" by (rule hd_dropWhile)
  moreover have "hd (dropWhile P xs) \<in> set (dropWhile P xs)" using ne by simp
  ultimately show False using assms by blast
qed

lemma py_strip_empty_iff: "py_strip s = [] \<longleftrightarrow> (\<forall>c\<in>set s. is_space c)"
proof
  assume "py_strip s = []"
  then have "rev (dropWhile is_space (rev (dropWhile is_space s))) = []"
    by (simp only: py_strip_def)
  then have "dropWhile is_space (rev (dropWhile is_space s)) = []"
    by (simp only: rev_is_Nil_conv)
  then have "\<forall>c\<in>set (dropWhile is_space s). is_space c"
    by (simp only: dropWhile_eq_Nil_conv set_rev)
  then have "dropWhile is_space s = []" by (rule dropWhile_all_Nil)
  then show "\<forall>c\<in>set s. is_space c" by (simp only: dropWhile_eq_Nil_conv)
next
  assume "\<forall>c\<in>set s. is_space c"
  then have "dropWhile is_space s = []" by (simp only: dropWhile_eq_Nil_conv)
  then show "py_strip s = []" by (simp only: py_strip_def rev.simps dropWhile.simps)
qed

lemma split_from_spaces:
  "\<forall>c\<in>set ws. is_space c \<Longrightarrow> split_from cur ws = (if cur = [] then [] else [cur])"
  by (induction ws arbitrary: cur) auto

lemma split_from_append_spaces:
  "\<forall>c\<in>set ws. is_space c \<Longrightarrow> split_from cur (s @ ws) = split_from cur s"
  by (induction s arbitrary: cur) (auto simp add: split_from_spaces)

lemma split_from_dropWhile: "split_from [] (dropWhile is_space s) = split_from [] s"
  by (induction s) auto

text \<open>Stripping removes a run of whitespace at each end and nothing else.\<close>

lemma strip_decompose:
  "\<exists>ws. (\<forall>c\<in>set ws. is_space c) \<and> dropWhile is_space s = py_strip s @ ws"
proof -
  let ?d = "dropWhile is_space s"
  have "rev ?d = takeWhile is_space (rev ?d) @ dropWhile is_space (rev ?d)" by simp
  then have "?d = rev (dropWhile is_space (rev ?d)) @ rev (takeWhile is_space (rev ?d))"
    by (metis rev_append rev_rev_ident)
  moreover have "\<forall>c\<in>set (rev (takeWhile is_space (rev ?d))). is_space c"
    by (auto dest: set_takeWhileD)
  ultimately show ?thesis unfolding py_strip_def by blast
qed

text \<open>The words of a text are the words of the stripped text.\<close>

lemma py_split_strip: "py_split (py_strip s) = py_split s"
proof -
  obtain ws where ws: "\<forall>c\<in>set ws. is_space c" "dropWhile is_space s = py_strip s @ ws"
    using strip_decompose by blast
  have "py_split s = split_from [] (dropWhile is_space s)"
    by (simp add: py_split_def split_from_dropWhile)
  also have "\<dots> = split_from [] (py_strip s)"
    using ws by (simp add: split_from_append_spaces)
  finally show ?thesis by (simp add: py_split_def)
qed

lemma py_split_spaces: "\<forall>c\<in>set s. is_space c \<Longrightarrow> py_split s = []"
  by (simp add: py_split_def split_from_spaces)

lemma strip_nonempty_of_words: "py_split s \<noteq> [] \<Longrightarrow> py_strip s \<noteq> []"
  using py_split_spaces py_strip_empty_iff by blast


section \<open>Properties of the summarizers\<close>

text \<open>
  Claim C3, as the code has it. For every text of at least one and at most 15 words,
  \<^verbatim>\<open>summarize_text_real\<close> returns the text with its leading and trailing whitespace
  stripped; for every text of at most 15 words, \<^verbatim>\<open>summarize_text\<close> of
  \<^verbatim>\<open>app_full_system.py\<close> returns the text unchanged; \<^verbatim>\<open>summarize_text\<close> of
  \<^verbatim>\<open>app.py\<close> has no word rule and returns the stripped text when that is not empty
  and shorter than 20 characters.
\<close>

theorem short_text_summary:
  "(1 \<le> length (py_split text) \<and> length (py_split text) \<le> 15
      \<longrightarrow> summarize_text_real models_loaded summarizer text = py_strip text)
   \<and> (length (py_split text) \<le> 15
      \<longrightarrow> summarize_text_full_system summarizer_fs text 15 = text)
   \<and> (py_strip text \<noteq> [] \<and> length (py_strip text) < 20
      \<longrightarrow> summarize_text_app summarizer_app text = py_strip text)"
proof (intro conjI impI)
  assume a: "1 \<le> length (py_split text) \<and> length (py_split text) \<le> 15"
  then have "py_split text \<noteq> []" by auto
  then have "py_strip text \<noteq> []" by (rule strip_nonempty_of_words)
  then show "summarize_text_real models_loaded summarizer text = py_strip text"
    using a by (simp add: summarize_text_real_def py_split_strip)
next
  assume "length (py_split text) \<le> 15"
  then show "summarize_text_full_system summarizer_fs text 15 = text"
    by (simp add: summarize_text_full_system_def)
next
  assume "py_strip text \<noteq> [] \<and> length (py_strip text) < 20"
  then show "summarize_text_app summarizer_app text = py_strip text"
    by (simp add: summarize_text_app_def)
qed

theorem short_text_summary_witness:
  "summarize_text_real True (\<lambda>t. Some ''model output'') '' Great job on this amendment! ''
     = ''Great job on this amendment!''
   \<and> summarize_text_full_system (Some (\<lambda>t. Some ''model output''))
        '' Great job on this amendment! '' 15 = '' Great job on this amendment! ''
   \<and> summarize_text_app (\<lambda>t. Inr ''model output'') '' Great job! '' = ''Great job!''"
proof -
  have w: "length (py_split '' Great job on this amendment! '') = 5" by code_simp
  have s: "py_strip '' Great job on this amendment! '' = ''Great job on this amendment!''"
    by code_simp
  have s': "py_strip '' Great job! '' = ''Great job!''" by code_simp
  show ?thesis
    using short_text_summary [of "'' Great job on this amendment! ''" True
        "\<lambda>t. Some ''model output''" "Some (\<lambda>t. Some ''model output'')" "\<lambda>t. Inr ''model output''"]
      short_text_summary [of "'' Great job! ''" True
        "\<lambda>t. Some ''model output''" "Some (\<lambda>t. Some ''model output'')" "\<lambda>t. Inr ''model output''"]
    by (simp add: w s s')
qed

text \<open>
  The claim as the specification states it fails: a text of one word with a leading
  blank is returned without the blank by \<^verbatim>\<open>summarize_text_real\<close>, and
  \<^verbatim>\<open>summarize_text\<close> of \<^verbatim>\<open>app.py\<close> hands a text of five words to the model.
\<close>

theorem short_text_summary_counterexample:
  "length (py_split '' ok'') \<le> 15
   \<and> summarize_text_real True (\<lambda>t. Some t) '' ok'' \<noteq> '' ok''
   \<and> length (py_split ''This amendment is very good'') \<le> 15
   \<and> summarize_text_app (\<lambda>t. Inr ''Good.'') ''This amendment is very good''
       \<noteq> ''This amendment is very good''"
  by code_simp

text \<open>
  Claim C5, as the code has it. For every text of more than 15 words, when the
  summarization model is not loaded or the call raises: \<^verbatim>\<open>summarize_text_real\<close>
  returns the first 50 words joined by single blanks, followed by three dots;
  \<^verbatim>\<open>summarize_text_cuda\<close> returns the first 50 words joined by single blanks, followed
  by three dots only when the text has more than 50 words; \<^verbatim>\<open>summarize_text\<close> of
  \<^verbatim>\<open>app_full_system.py\<close> returns the first 15 words joined by single blanks, with no
  dots.
\<close>

theorem summary_fallback_truncates:
  "length (py_split text) > 15 \<Longrightarrow>
   (\<not> models_loaded \<or> summarizer (take 1000 (py_strip text)) = None
      \<longrightarrow> summarize_text_real models_loaded summarizer text
          = py_join '' '' (take 50 (py_split text)) @ ''...'')
   \<and> (\<not> avail \<or> model = None \<or> (\<exists>run. model = Some run \<and> run text = None)
      \<longrightarrow> summarize_text_cuda avail model text
          = py_join '' '' (take 50 (py_split text))
            @ (if length (py_split text) > 50 then ''...'' else []))
   \<and> (model = None \<or> (\<exists>run. model = Some run \<and> run text = None)
      \<longrightarrow> summarize_text_full_system model text 15
          = py_join '' '' (take 15 (py_split text)))"
proof (intro conjI impI)
  assume wc: "length (py_split text) > 15"
  then have "py_split text \<noteq> []" by auto
  then have ne: "py_strip text \<noteq> []" by (rule strip_nonempty_of_words)
  have tk: "(if length (py_strip text) > 1000 then take 1000 (py_strip text) else py_strip text)
             = take 1000 (py_strip text)" by simp
  assume "\<not> models_loaded \<or> summarizer (take 1000 (py_strip text)) = None"
  then show "summarize_text_real models_loaded summarizer text
          = py_join '' '' (take 50 (py_split text)) @ ''...''"
    using wc ne unfolding summarize_text_real_def Let_def tk py_split_strip
    by auto
next
  assume wc: "length (py_split text) > 15"
  assume "\<not> avail \<or> model = None \<or> (\<exists>run. model = Some run \<and> run text = None)"
  then show "summarize_text_cuda avail model text
          = py_join '' '' (take 50 (py_split text))
            @ (if length (py_split text) > 50 then ''...'' else [])"
    using wc
    by (auto simp add: summarize_text_cuda_def truncate_cuda_def Let_def
        split: bool.split option.split)
next
  assume wc: "length (py_split text) > 15"
  assume "model = None \<or> (\<exists>run. model = Some run \<and> run text = None)"
  then show "summarize_text_full_system model text 15 = py_join '' '' (take 15 (py_split text))"
    using wc by (auto simp add: summarize_text_full_system_def Let_def)
qed

theorem summary_fallback_truncates_witness:
  "summarize_text_real False (\<lambda>t. Some ''model output'') ''a b c d e f g h i j k l m n o p''
     = ''a b c d e f g h i j k l m n o p...''
   \<and> summarize_text_cuda True (Some (\<lambda>t. None)) ''a b c d e f g h i j k l m n o p''
     = ''a b c d e f g h i j k l m n o p''
   \<and> summarize_text_full_system (Some (\<lambda>t. None)) ''a b c d e f g h i j k l m n o p'' 15
     = ''a b c d e f g h i j k l m n o''"
proof -
  let ?t = "''a b c d e f g h i j k l m n o p''"
  have ws: "py_split ?t = [''a'', ''b'', ''c'', ''d'', ''e'', ''f'', ''g'', ''h'', ''i'', ''j'',
      ''k'', ''l'', ''m'', ''n'', ''o'', ''p'']"
    by code_simp
  have wc: "length (py_split ?t) > 15" unfolding ws by simp
  show ?thesis
    using summary_fallback_truncates [OF wc, of False "\<lambda>t. Some ''model output''" True
        "Some (\<lambda>t. None)"]
    unfolding ws by simp
qed

text \<open>
  The claim as the specification states it fails: without a model,
  \<^verbatim>\<open>summarize_text_cuda\<close> returns a text of 16 words with no dots appended.
\<close>

theorem summary_fallback_counterexample:
  "length (py_split ''a b c d e f g h i j k l m n o p'') > 15
   \<and> summarize_text_cuda False None ''a b c d e f g h i j k l m n o p''
       \<noteq> py_join '' '' (take 50 (py_split ''a b c d e f g h i j k l m n o p'')) @ ''...''"
  by code_simp

text \<open>
  Claim C9. For every empty or whitespace-only text, \<^verbatim>\<open>summarize_text_real\<close> and
  \<^verbatim>\<open>summarize_text\<close> of \<^verbatim>\<open>app.py\<close> return the sentinel
  \<^verbatim>\<open>No content to summarize\<close>; they return a value, whatever the model does.
\<close>

theorem empty_text_sentinel:
  "\<forall>c\<in>set text. is_space c \<Longrightarrow>
   summarize_text_real models_loaded summarizer text = ''No content to summarize''
   \<and> summarize_text_app summarizer_app text = ''No content to summarize''"
  using py_strip_empty_iff [of "text"]
  by (simp add: summarize_text_real_def summarize_text_app_def)

theorem empty_text_sentinel_witness:
  "summarize_text_real True (\<lambda>t. None) [] = ''No content to summarize''
   \<and> summarize_text_app (\<lambda>t. Inl ''boom'') [] = ''No content to summarize''
   \<and> summarize_text_real True (\<lambda>t. None) [CHR '' '', CHR 0x09, CHR 0x0A]
       = ''No content to summarize''
   \<and> summarize_text_app (\<lambda>t. Inl ''boom'') [CHR '' '', CHR 0x09, CHR 0x0A]
       = ''No content to summarize''"
proof -
  have sp: "\<forall>c\<in>set [CHR '' '', CHR 0x09, CHR 0x0A]. is_space c"
    by (simp add: is_space_def)
  have e: "\<forall>c\<in>set []. is_space c" by simp
  show ?thesis
    using empty_text_sentinel [OF sp, of True "\<lambda>t. None" "\<lambda>t. Inl ''boom''"]
      empty_text_sentinel [OF e, of True "\<lambda>t. None" "\<lambda>t. Inl ''boom''"]
    by simp
qed

section \<open>Properties of the sentiment classifiers\<close>

lemma count_loop_hits:
  "count_loop entries (py_lower text) weight count = count + weight * int (hits entries text)"
  unfolding count_loop_def hits_def
  by (induction entries arbitrary: count) (simp_all add: algebra_simps)

lemma space_lower: "is_space c \<Longrightarrow> lower_char c = c"
  by (auto simp add: is_space_def lower_char_def Let_def)

lemma lower_spaces: "\<forall>c\<in>set s. is_space c \<Longrightarrow> py_lower s = s"
  unfolding py_lower_def by (induction s) (simp_all add: space_lower)

lemma startswith_set: "startswith s w \<Longrightarrow> set w \<subseteq> set s"
  by (induction s w rule: startswith.induct) auto

lemma py_in_set: "py_in w s \<Longrightarrow> set w \<subseteq> set s"
proof (induction s)
  case Nil
  then show ?case by simp
next
  case (Cons c cs)
  from Cons.prems have "startswith (c # cs) w \<or> py_in w cs" by simp
  then show ?case
  proof
    assume "startswith (c # cs) w"
    then show ?thesis by (rule startswith_set)
  next
    assume "py_in w cs"
    then have "set w \<subseteq> set cs" by (rule Cons.IH)
    then show ?thesis by auto
  qed
qed

text \<open>No keyword occurs in a text that is only whitespace.\<close>

lemma no_hit_in_spaces:
  assumes "\<forall>c\<in>set s. is_space c" and "list_all starts_with_letter entries"
  shows "hits entries s = 0"
proof -
  have "\<not> py_in w (py_lower s)" if "w \<in> set entries" for w
  proof
    assume "py_in w (py_lower s)"
    then have sub: "set w \<subseteq> set s" using assms(1) by (simp add: lower_spaces py_in_set)
    from that assms(2) have "starts_with_letter w" by (simp add: list_all_iff)
    then obtain c cs where "w = c # cs" "\<not> is_space c"
      by (auto simp add: starts_with_letter_def split: list.splits)
    with sub assms(1) show False by auto
  qed
  then show ?thesis by (simp add: hits_def filter_empty_conv)
qed

lemma lists_start_with_letters:
  "list_all starts_with_letter positive_words" "list_all starts_with_letter negative_words"
  "list_all starts_with_letter positive_phrases" "list_all starts_with_letter negative_phrases"
  by code_simp+

text \<open>
  The counts of the four loops against the counts of the specification: the positive
  lists share no entry, and the negative lists share the three phrases listed twice.
\<close>

lemma listed_twice_entries:
  "listed_twice = [''extremely disappointed'', ''not helpful'', ''low quality'']"
  by code_simp

lemma weight_sum_words:
  "list_all (\<lambda>e. \<not> is_phrase e) es \<Longrightarrow>
   sum_list (map (\<lambda>e. if is_phrase e then 2 else 1) (filter P es)) = length (filter P es)"
  by (induction es) auto

lemma weight_sum_phrases:
  "list_all is_phrase es \<Longrightarrow>
   sum_list (map (\<lambda>e. if is_phrase e then 2 else 1) (filter P es)) = 2 * length (filter P es)"
  by (induction es) auto

lemma claimed_count_split:
  assumes "remdups (ws @ ps) = ws' @ ps"
    and "list_all (\<lambda>e. \<not> is_phrase e) ws'" and "list_all is_phrase ps"
  shows "claimed_count ws ps text = hits ws' text + 2 * hits ps text"
  unfolding claimed_count_def hits_def assms(1) filter_append map_append sum_list_append
  using assms(2,3) by (simp only: weight_sum_words weight_sum_phrases)

lemma hits_partition:
  "hits es text = hits (filter (\<lambda>e. \<not> Q e) es) text + hits (filter Q es) text"
  unfolding hits_def by (induction es) auto

lemma positive_lists:
  "remdups (positive_words @ positive_phrases) = positive_words @ positive_phrases"
  "list_all (\<lambda>e. \<not> is_phrase e) positive_words"
  "list_all is_phrase positive_phrases"
  by code_simp+

lemma negative_lists:
  "remdups (negative_words @ negative_phrases)
     = filter (\<lambda>e. \<not> is_phrase e) negative_words @ negative_phrases"
  "list_all (\<lambda>e. \<not> is_phrase e) (filter (\<lambda>e. \<not> is_phrase e) negative_words)"
  "list_all is_phrase negative_phrases"
  "filter is_phrase negative_words = listed_twice"
  by code_simp+

lemma positive_count: "claimed_count positive_words positive_phrases text
    = hits positive_words text + 2 * hits positive_phrases text"
  by (rule claimed_count_split [OF positive_lists])

lemma negative_count: "claimed_count negative_words negative_phrases text + hits listed_twice text
    = hits negative_words text + 2 * hits negative_phrases text"
proof -
  have "claimed_count negative_words negative_phrases text
      = hits (filter (\<lambda>e. \<not> is_phrase e) negative_words) text + 2 * hits negative_phrases text"
    by (rule claimed_count_split [OF negative_lists(1,2,3)])
  moreover have "hits negative_words text
      = hits (filter (\<lambda>e. \<not> is_phrase e) negative_words) text + hits listed_twice text"
    using hits_partition [of negative_words "text" is_phrase] by (simp only: negative_lists(4))
  ultimately show ?thesis by simp
qed

text \<open>
  Claim C6, as the code has it. In the keyword strategy of \<^verbatim>\<open>app_enhanced.py\<close>, for
  every text, a phrase found in the lowercased text adds 2 to its side's count and a
  single word found adds 1, except that the three phrases \<^verbatim>\<open>extremely disappointed\<close>,
  \<^verbatim>\<open>not helpful\<close> and \<^verbatim>\<open>low quality\<close>, which the code lists among the negative
  words as well as among the negative phrases, add 3. The label is positive when the
  positive count is larger, negative when the negative count is larger, and on a tie
  neutral for a text of at most 3 words, else negative when there is a negative hit, else
  positive when there is a positive hit, else neutral.
\<close>

theorem predict_sentiment_counts:
  "predict_sentiment text = label_name (counted_label text)"
proof (cases "py_strip text = []")
  case True
  then have sp: "\<forall>c\<in>set text. is_space c" by (simp add: py_strip_empty_iff)
  then have "py_split text = []" by (rule py_split_spaces)
  moreover have "hits positive_words text = 0" "hits positive_phrases text = 0"
    "hits negative_words text = 0" "hits negative_phrases text = 0"
    using sp by (simp_all add: no_hit_in_spaces lists_start_with_letters)
  ultimately show ?thesis using True
    by (simp add: predict_sentiment_def counted_label_def select_label_def
        positive_count negative_count)
next
  case False
  then show ?thesis
    by (simp add: predict_sentiment_def counted_label_def select_label_def Let_def
        count_loop_hits positive_count negative_count)
qed

theorem predict_sentiment_counts_witness:
  "predict_sentiment ''not helpful'' = label_name (select_label 2 (2 + 1) 2)
   \<and> predict_sentiment ''Great job on this amendment!'' = label_name (select_label 1 0 5)"
proof -
  have a: "claimed_count positive_words positive_phrases ''not helpful'' = 2"
    "claimed_count negative_words negative_phrases ''not helpful'' = 2"
    "hits listed_twice ''not helpful'' = 1" "length (py_split ''not helpful'') = 2"
    by code_simp+
  have b: "claimed_count positive_words positive_phrases ''Great job on this amendment!'' = 1"
    "claimed_count negative_words negative_phrases ''Great job on this amendment!'' = 0"
    "hits listed_twice ''Great job on this amendment!'' = 0"
    "length (py_split ''Great job on this amendment!'') = 5"
    by code_simp+
  show ?thesis
    using predict_sentiment_counts [of "''not helpful''"]
      predict_sentiment_counts [of "''Great job on this amendment!''"]
    by (simp add: counted_label_def a b)
qed

text \<open>
  The claim as the specification states it fails: for the text \<^verbatim>\<open>not helpful\<close> the
  stated weights give 2 on each side, a tie on a text of two words and so neutral, while
  the code counts 3 on the negative side and answers negative.
\<close>

theorem predict_sentiment_counterexample:
  "predict_sentiment ''not helpful'' = ''NEGATIVE''
   \<and> label_name (claimed_label ''not helpful'') = ''NEUTRAL''"
  by code_simp

text \<open>
  Claim C8, as the code has it. When the model-backed classifier raises,
  \<^verbatim>\<open>analyze_sentiment\<close> of \<^verbatim>\<open>app_full_system.py\<close> returns what its keyword strategy
  returns for the text, and \<^verbatim>\<open>analyze_sentiment_cuda\<close> returns the fixed pair
  \<^verbatim>\<open>("neutral", 0.5)\<close>; both return a value, so the sentiment stage does not fail the
  request.
\<close>

theorem sentiment_fallback_on_exception:
  "(run text = None \<longrightarrow> analyze_sentiment (Some run) text = keyword_fallback text)
   \<and> (run_cuda text = None
      \<longrightarrow> analyze_sentiment_cuda avail (Some run_cuda) text = (''neutral'', 0.5))"
  by (simp add: analyze_sentiment_def analyze_sentiment_cuda_def split: bool.split)

theorem sentiment_fallback_on_exception_witness:
  "analyze_sentiment (Some (\<lambda>t. None)) ''This is great'' = (''positive'', 0.7)
   \<and> analyze_sentiment_cuda True (Some (\<lambda>t. None)) ''This is great'' = (''neutral'', 0.5)"
proof -
  have k: "keyword_fallback ''This is great'' = (''positive'', 0.7)" by code_simp
  show ?thesis
    using sentiment_fallback_on_exception [of "\<lambda>t. None" "''This is great''" "\<lambda>t. None" True]
    by (simp add: k)
qed

text \<open>
  The claim as the specification states it fails for \<^verbatim>\<open>analyze_sentiment_cuda\<close>: with
  a raising classifier it answers neutral for a text that the keyword strategy labels
  positive.
\<close>

theorem sentiment_fallback_counterexample:
  "analyze_sentiment_cuda True (Some (\<lambda>t. None)) ''This is great''
     \<noteq> keyword_fallback ''This is great''"
  by code_simp

section \<open>Properties of feedback submission\<close>

lemma first_amendment_None_iff:
  "first_amendment d i = None \<longleftrightarrow> (\<forall>a\<in>set (amendments d). am_id a \<noteq> i)"
  by (auto simp add: first_amendment_def find_None_iff)

lemma persists_same: "persists_analysed d d 0"
  by (simp add: persists_analysed_def added_rows_def)

lemma persists_add:
  "persists_analysed d (snd (add_feedback d now a t (Some su) (Some se) (Some co))) 1"
  by (simp add: persists_analysed_def added_rows_def add_feedback_def Let_def analysed_def)

text \<open>The three ways through \<^verbatim>\<open>submit_feedback\<close> of \<^verbatim>\<open>app_lite_toxicity.py\<close>.\<close>

lemma lite_not_found:
  "first_amendment d (amendment_id fb) = None \<Longrightarrow>
   submit_feedback_lite avail predict fb d now
     = (Inl (HTTPException 404 ''Amendment not found''), d)"
  by (simp add: submit_feedback_lite_def)

lemma lite_toxic:
  "first_amendment d (amendment_id fb) = Some a \<Longrightarrow>
   fst (detect_toxicity avail predict (original_text fb)) \<Longrightarrow>
   submit_feedback_lite avail predict fb d now
     = (Inr (toxic_response (snd (detect_toxicity avail predict (original_text fb)))), d)"
  by (cases "detect_toxicity avail predict (original_text fb)")
    (simp add: submit_feedback_lite_def)

lemma lite_saved:
  "first_amendment d (amendment_id fb) = Some a \<Longrightarrow>
   \<not> fst (detect_toxicity avail predict (original_text fb)) \<Longrightarrow>
   snd (submit_feedback_lite avail predict fb d now)
     = snd (add_feedback d now (amendment_id fb) (original_text fb)
         (Some (simple_summary (original_text fb) 15))
         (Some (fst (simple_sentiment (original_text fb))))
         (Some (snd (simple_sentiment (original_text fb)))))"
  by (cases "detect_toxicity avail predict (original_text fb)";
      cases "simple_sentiment (original_text fb)")
    (simp add: submit_feedback_lite_def Let_def split: prod.split)

text \<open>The three ways through \<^verbatim>\<open>submit_feedback_cuda\<close>.\<close>

lemma cuda_not_found:
  "first_amendment d (amendment_id fb) = None \<Longrightarrow>
   submit_feedback_cuda g fb d now = (Inl (HTTPException 404 ''Amendment not found''), d)"
  by (simp add: submit_feedback_cuda_def)

lemma cuda_toxic:
  "first_amendment d (amendment_id fb) = Some a \<Longrightarrow>
   fst (detect_toxicity_cuda (DETOXIFY_AVAILABLE g) (detoxify_model g) (original_text fb)) \<Longrightarrow>
   submit_feedback_cuda g fb d now
     = (Inr (toxic_response
          (snd (detect_toxicity_cuda (DETOXIFY_AVAILABLE g) (detoxify_model g)
             (original_text fb)))), d)"
  by (cases "detect_toxicity_cuda (DETOXIFY_AVAILABLE g) (detoxify_model g) (original_text fb)")
    (simp add: submit_feedback_cuda_def)

lemma cuda_saved:
  "first_amendment d (amendment_id fb) = Some a \<Longrightarrow>
   \<not> fst (detect_toxicity_cuda (DETOXIFY_AVAILABLE g) (detoxify_model g) (original_text fb)) \<Longrightarrow>
   snd (submit_feedback_cuda g fb d now)
     = snd (add_feedback d now (amendment_id fb) (original_text fb)
         (Some (summarize_text_cuda (TRANSFORMERS_AVAILABLE g) (summarizer_cuda g)
            (original_text fb)))
         (Some (fst (analyze_sentiment_cuda (TRANSFORMERS_AVAILABLE g) (sentiment_analyzer g)
            (original_text fb))))
         (Some (snd (analyze_sentiment_cuda (TRANSFORMERS_AVAILABLE g) (sentiment_analyzer g)
            (original_text fb)))))"
  by (cases "detect_toxicity_cuda (DETOXIFY_AVAILABLE g) (detoxify_model g) (original_text fb)";
      cases "analyze_sentiment_cuda (TRANSFORMERS_AVAILABLE g) (sentiment_analyzer g)
        (original_text fb)")
    (simp add: submit_feedback_cuda_def Let_def split: prod.split)

text \<open>The two ways through \<^verbatim>\<open>submit_feedback\<close> of \<^verbatim>\<open>app_working.py\<close>.\<close>

lemma working_not_found:
  "first_amendment d (amendment_id fb) = None \<Longrightarrow>
   submit_feedback_working fb d now = (Inl (HTTPException 404 ''Amendment not found''), d)"
  by (simp add: submit_feedback_working_def)

lemma working_saved:
  "first_amendment d (amendment_id fb) = Some a \<Longrightarrow>
   snd (submit_feedback_working fb d now)
     = snd (add_feedback d now (amendment_id fb) (original_text fb)
         (Some (if length (original_text fb) > 100
                then ''Summary: '' @ take 100 (original_text fb) @ ''...''
                else original_text fb))
         (Some (if py_in ''good'' (py_lower (original_text fb))
                   \<or> py_in ''great'' (py_lower (original_text fb))
                then ''positive'' else ''neutral''))
         (Some 0.85))"
  unfolding submit_feedback_working_def Let_def
  by (simp only: option.case split_beta snd_conv)

text \<open>
  Claim C7. A submission whose \<^verbatim>\<open>amendment_id\<close> is the key of no amendment raises
  the HTTP exception 404 and leaves the database as it was, in every variant; no model
  is consulted, since the outcome does not depend on any.
\<close>

theorem unknown_amendment_not_found:
  "\<forall>a\<in>set (amendments d). am_id a \<noteq> amendment_id fb \<Longrightarrow>
   submit_feedback_lite avail predict fb d now
     = (Inl (HTTPException 404 ''Amendment not found''), d)
   \<and> submit_feedback_working fb d now = (Inl (HTTPException 404 ''Amendment not found''), d)
   \<and> submit_feedback_cuda g fb d now = (Inl (HTTPException 404 ''Amendment not found''), d)"
  by (simp add: first_amendment_None_iff [symmetric] lite_not_found working_not_found
      cuda_not_found)

theorem unknown_amendment_not_found_witness:
  "submit_feedback_lite True scores_010 (friendly_request\<lparr>amendment_id := 7\<rparr>)
       one_amendment_db 3
     = (Inl (HTTPException 404 ''Amendment not found''), one_amendment_db)
   \<and> submit_feedback_working (friendly_request\<lparr>amendment_id := 7\<rparr>) one_amendment_db 3
     = (Inl (HTTPException 404 ''Amendment not found''), one_amendment_db)
   \<and> submit_feedback_cuda (globals_with scores_010) (friendly_request\<lparr>amendment_id := 7\<rparr>)
       one_amendment_db 3
     = (Inl (HTTPException 404 ''Amendment not found''), one_amendment_db)"
proof -
  have h: "\<forall>a\<in>set (amendments one_amendment_db).
      am_id a \<noteq> amendment_id (friendly_request\<lparr>amendment_id := 7\<rparr>)"
    by (simp add: one_amendment_db_def)
  show ?thesis
    using unknown_amendment_not_found [OF h, of True scores_010 3 "globals_with scores_010"]
    by simp
qed

text \<open>
  Claim C1, as the code has it. For a submission to an existing amendment that the
  toxicity gate judges toxic, \<^verbatim>\<open>submit_feedback\<close> of \<^verbatim>\<open>app_lite_toxicity.py\<close> and
  \<^verbatim>\<open>submit_feedback_cuda\<close> return the rejection with the toxicity score and leave the
  database as it was: no feedback row is written. The sentiment and summarization models
  have no part in the outcome, whichever they are.
\<close>

theorem toxic_submission_rejected_unsaved:
  "first_amendment d (amendment_id fb) \<noteq> None \<Longrightarrow>
   (fst (detect_toxicity avail predict (original_text fb))
      \<longrightarrow> submit_feedback_lite avail predict fb d now
          = (Inr (toxic_response (snd (detect_toxicity avail predict (original_text fb)))), d))
   \<and> (fst (detect_toxicity_cuda (DETOXIFY_AVAILABLE g) (detoxify_model g) (original_text fb))
      \<longrightarrow> submit_feedback_cuda (g\<lparr>sentiment_analyzer := sa, summarizer_cuda := su\<rparr>) fb d now
          = (Inr (toxic_response
               (snd (detect_toxicity_cuda (DETOXIFY_AVAILABLE g) (detoxify_model g)
                  (original_text fb)))), d))"
proof -
  assume "first_amendment d (amendment_id fb) \<noteq> None"
  then obtain a where a: "first_amendment d (amendment_id fb) = Some a" by auto
  show ?thesis
    using lite_toxic [OF a, of avail predict now]
      cuda_toxic [OF a, of "g\<lparr>sentiment_analyzer := sa, summarizer_cuda := su\<rparr>" now]
    by simp
qed

theorem toxic_submission_rejected_unsaved_witness:
  "submit_feedback_lite True scores_075 toxic_request one_amendment_db 3
     = (Inr (toxic_response 0.75), one_amendment_db)
   \<and> submit_feedback_cuda
       (globals_with scores_075\<lparr>sentiment_analyzer := None, summarizer_cuda := None\<rparr>)
       toxic_request one_amendment_db 3
     = (Inr (toxic_response 0.75), one_amendment_db)"
proof -
  have f: "first_amendment one_amendment_db (amendment_id toxic_request) \<noteq> None"
    by (simp add: first_amendment_def one_amendment_db_def toxic_request_def)
  have t: "detect_toxicity True scores_075 (original_text toxic_request) = (True, 0.75)"
    by (simp add: detect_toxicity_def scores_075_def max_values_def)
  have tc: "detect_toxicity_cuda (DETOXIFY_AVAILABLE (globals_with scores_075))
      (detoxify_model (globals_with scores_075)) (original_text toxic_request) = (True, 0.75)"
    by (simp add: detect_toxicity_cuda_def globals_with_def scores_075_def)
  show ?thesis
    using toxic_submission_rejected_unsaved [OF f, of True scores_075 3
        "globals_with scores_075" None None]
    by (simp add: t tc)
qed

text \<open>
  The claim as the specification states it fails: after a toxic submission to an
  existing amendment the feedback table is still empty, so it holds no row for the
  submission.
\<close>

theorem toxic_submission_counterexample:
  "fst (detect_toxicity True scores_075 (original_text toxic_request))
   \<and> first_amendment one_amendment_db (amendment_id toxic_request) \<noteq> None
   \<and> feedback (snd (submit_feedback_lite True scores_075 toxic_request one_amendment_db 3)) = []"
proof -
  have t: "detect_toxicity True scores_075 (original_text toxic_request) = (True, 0.75)"
    by (simp add: detect_toxicity_def scores_075_def max_values_def)
  have f: "first_amendment one_amendment_db (amendment_id toxic_request)
      = Some \<lparr>am_id = 1, title = ''Amendment'', description = ''Text'', am_created_at = 0\<rparr>"
    by (simp add: first_amendment_def one_amendment_db_def toxic_request_def)
  have "feedback one_amendment_db = []" by (simp add: one_amendment_db_def)
  then show ?thesis
    using lite_toxic [OF f, of True scores_075 3] by (simp add: t f)
qed

text \<open>
  Claim C10. In every variant, a submission only appends to the feedback table, and every
  row it appends has a summary, a sentiment and a confidence: it appends one such row
  when the amendment exists and the gate does not judge the text toxic, and none
  otherwise.
\<close>

theorem persisted_rows_analysed:
  "persists_analysed d (snd (submit_feedback_lite avail predict fb d now))
     (if first_amendment d (amendment_id fb) = None
         \<or> fst (detect_toxicity avail predict (original_text fb)) then 0 else 1)
   \<and> persists_analysed d (snd (submit_feedback_cuda g fb d now))
     (if first_amendment d (amendment_id fb) = None
         \<or> fst (detect_toxicity_cuda (DETOXIFY_AVAILABLE g) (detoxify_model g)
              (original_text fb)) then 0 else 1)
   \<and> persists_analysed d (snd (submit_feedback_working fb d now))
     (if first_amendment d (amendment_id fb) = None then 0 else 1)"
proof (cases "first_amendment d (amendment_id fb)")
  case None
  then show ?thesis
    by (simp add: lite_not_found cuda_not_found working_not_found persists_same)
next
  case (Some a)
  have lite: "persists_analysed d (snd (submit_feedback_lite avail predict fb d now))
     (if fst (detect_toxicity avail predict (original_text fb)) then 0 else 1)"
    by (simp add: lite_toxic [OF Some] lite_saved [OF Some] persists_same persists_add [unfolded One_nat_def])
  have cuda: "persists_analysed d (snd (submit_feedback_cuda g fb d now))
     (if fst (detect_toxicity_cuda (DETOXIFY_AVAILABLE g) (detoxify_model g)
              (original_text fb)) then 0 else 1)"
    by (simp add: cuda_toxic [OF Some] cuda_saved [OF Some] persists_same persists_add [unfolded One_nat_def])
  have working: "persists_analysed d (snd (submit_feedback_working fb d now)) 1"
    by (simp only: working_saved [OF Some] persists_add)
  show ?thesis using lite cuda working by (simp add: Some)
qed

text \<open>A table of analysed rows stays one under every submission.\<close>

lemma analysed_table_kept:
  assumes "persists_analysed d d' n" and "list_all analysed (feedback d)"
  shows "list_all analysed (feedback d')"
proof -
  from assms(1) have "feedback d' = feedback d @ added_rows d d'"
    and "list_all analysed (added_rows d d')"
    by (simp_all add: persists_analysed_def)
  with assms(2) show ?thesis by (metis list_all_append)
qed

theorem persisted_rows_analysed_witness:
  "persists_analysed one_amendment_db
     (snd (submit_feedback_lite True scores_010 friendly_request one_amendment_db 3)) 1
   \<and> persists_analysed one_amendment_db
     (snd (submit_feedback_cuda (globals_with scores_010) friendly_request one_amendment_db 3)) 1
   \<and> persists_analysed one_amendment_db
     (snd (submit_feedback_working friendly_request one_amendment_db 3)) 1"
proof -
  have f: "first_amendment one_amendment_db (amendment_id friendly_request) \<noteq> None"
    by (simp add: first_amendment_def one_amendment_db_def friendly_request_def)
  have t: "\<not> fst (detect_toxicity True scores_010 (original_text friendly_request))"
    by (simp add: detect_toxicity_def scores_010_def max_values_def)
  have tc: "\<not> fst (detect_toxicity_cuda (DETOXIFY_AVAILABLE (globals_with scores_010))
      (detoxify_model (globals_with scores_010)) (original_text friendly_request))"
    by (simp add: detect_toxicity_cuda_def globals_with_def scores_010_def)
  show ?thesis
    using persisted_rows_analysed [of one_amendment_db True scores_010 friendly_request 3
        "globals_with scores_010"] f t tc
    by simp
qed


end
